theory Spec2Isabelle
  imports Complex_Main "HOL-Library.Word"
begin

section \<open>JavaScript values used by app.js\<close>

text \<open>
  A JavaScript string is a sequence of 16-bit code units. ASCII literals of the source
  are written \<open>lit ''...''\<close>; the Turkish letters of the messages are given by their
  code units (\<open>0xFC\<close> u-diaeresis, \<open>0x11F\<close> g-breve, \<open>0x130\<close> dotted capital I,
  \<open>0x131\<close> dotless i, \<open>0x15F\<close> s-cedilla).
\<close>

type_synonym jsstring = "16 word list"

definition lit :: "string \<Rightarrow> jsstring" where
  "lit s = map of_char s"

text \<open>
  \<open>String.prototype.trim\<close> removes the ECMAScript WhiteSpace and LineTerminator code
  points from both ends; all of them are single code units.
\<close>

definition isWhiteSpace :: "16 word \<Rightarrow> bool" where
  "isWhiteSpace c \<longleftrightarrow>
     c \<in> {0x0009, 0x000A, 0x000B, 0x000C, 0x000D, 0x0020, 0x00A0, 0x1680,
          0x2028, 0x2029, 0x202F, 0x205F, 0x3000, 0xFEFF}
     \<or> (0x2000 \<le> c \<and> c \<le> 0x200A)"

definition trim :: "jsstring \<Rightarrow> jsstring" where
  "trim s = rev (dropWhile isWhiteSpace (rev (dropWhile isWhiteSpace s)))"

text \<open>
  A property that may be absent is an \<open>option\<close> (\<open>None\<close> is \<open>undefined\<close> or
  \<open>null\<close>). A string is truthy when it is not empty; \<open>a || d\<close> is \<open>a\<close> when \<open>a\<close> is
  truthy and \<open>d\<close> otherwise.
\<close>

definition truthy :: "jsstring option \<Rightarrow> bool" where
  "truthy v = (case v of None \<Rightarrow> False | Some s \<Rightarrow> s \<noteq> [])"

definition or_else :: "jsstring option \<Rightarrow> jsstring \<Rightarrow> jsstring" where
  "or_else v d = (case v of None \<Rightarrow> d | Some s \<Rightarrow> if s \<noteq> [] then s else d)"

text \<open>A template literal prints \<open>null\<close> for the value \<open>null\<close>.\<close>

definition template :: "jsstring option \<Rightarrow> jsstring" where
  "template v = (case v of None \<Rightarrow> lit ''null'' | Some s \<Rightarrow> s)"

text \<open>
  The parsed body of a response: the properties app.js reads from \<open>data\<close>, each of them
  possibly absent, with the types of the API (\<open>success\<close> a boolean, \<open>progress\<close> a
  number, \<open>formats\<close> an array, the others strings). Numbers are rationals, which
  covers every finite double; a literal too large for a double, which parses to
  \<open>Infinity\<close>, is not covered.
\<close>

record data =
  success :: "bool option"
  error :: "jsstring option"
  thumbnail :: "jsstring option"
  title :: "jsstring option"
  duration_string :: "jsstring option"
  uploader :: "jsstring option"
  webpage_url :: "jsstring option"
  formats :: "jsstring list option"
  job_id :: "jsstring option"
  status :: "jsstring option"
  progress :: "rat option"
  speed :: "jsstring option"
  eta :: "jsstring option"
  filename :: "jsstring option"

text \<open>
  What a handler observes of an HTTP response: \<open>response.ok\<close>, the outcome of
  \<open>await response.json()\<close> and the outcome of \<open>await response.blob()\<close>. \<open>Inl m\<close> is a
  rejection whose error has message \<open>m\<close>. A body that parses to \<open>null\<close> makes the first
  property read of \<open>data\<close> throw inside the same \<open>try\<close>; it is the \<open>Inl\<close> case of
  \<open>json\<close> as well. The outcome of \<open>await fetch(...)\<close> is \<open>Inl m\<close> when the promise
  rejects and \<open>Inr\<close> of a response otherwise.
\<close>

record response =
  ok :: bool
  json :: "jsstring + data"
  blob :: "jsstring + 8 word list"

type_synonym fetched = "jsstring + response"

definition awaited_json :: "fetched \<Rightarrow> jsstring + data" where
  "awaited_json r = (case r of Inl m \<Rightarrow> Inl m | Inr resp \<Rightarrow> json resp)"

text \<open>
  A request handed to \<open>fetch\<close>: method, URL, headers, and the object given to
  \<open>JSON.stringify\<close> as a list of properties (\<open>None\<close> is \<open>null\<close>).
\<close>

datatype request =
  Fetch string jsstring "(string \<times> jsstring) list" "(string \<times> jsstring option) list option"

text \<open>
  An \<open>async\<close> function suspended at its \<open>await\<close>: the rest of \<open>handleAnalyze\<close>, of
  \<open>handleDownload\<close>, of the interval callback, or of the click handler of the download
  link, which closes over \<open>filename\<close>.
\<close>

datatype cont = AnalyzeK | DownloadK | PollK | FileK jsstring

section \<open>State\<close>

text \<open>
  The properties of the DOM elements that app.js reads or writes. A section is hidden
  when its class list contains \<open>hidden\<close>. \<open>progressPercent\<close> and \<open>progressFill_width\<close>
  hold the number \<open>N\<close> of the text \<open>N%\<close>. \<open>downloadLink_onclick\<close> is the handler
  installed by \<open>showComplete\<close>, given by the \<open>filename\<close> it closes over.
\<close>

record dom_elements =
  urlInput_value :: jsstring
  analyzeBtn_disabled :: bool
  btnText_hidden :: bool
  btnLoader_hidden :: bool
  videoCard_hidden :: bool
  thumbnail_src :: jsstring
  thumbnail_alt :: jsstring
  duration_text :: jsstring
  videoTitle_text :: jsstring
  uploader_text :: jsstring
  qualitySelect_options :: "jsstring list"
  qualitySelect_value :: jsstring
  progressSection_hidden :: bool
  progressPercent :: int
  progressFill_width :: int
  progressSpeed_text :: jsstring
  progressEta_text :: jsstring
  completeSection_hidden :: bool
  downloadFilename_text :: jsstring
  downloadLink_onclick :: "jsstring option"
  errorSection_hidden :: bool
  errorMessage_text :: jsstring

text \<open>
  The module-level variables of app.js, the elements, and the host: the interval timers
  that are active, the next timer id (ids are positive integers), every request issued
  so far, the suspended continuations, the files handed to the browser for saving, and
  the console.
\<close>

record state =
  currentVideoData :: "data option"
  currentJobId :: "jsstring option"
  progressInterval :: "nat option"
  elements :: dom_elements
  timers :: "nat set"
  next_timer :: nat
  requests :: "request list"
  pending :: "cont list"
  saved :: "(jsstring \<times> 8 word list) list"
  console :: "jsstring list"

definition API_BASE :: jsstring where
  "API_BASE = lit ''/api''"

definition API_KEY :: jsstring where
  "API_KEY = lit ''[[API_KEY_PLACEHOLDER]]''"

text \<open>\<open>fetch\<close> issues the request; the caller is suspended until the outcome arrives.\<close>

definition fetch :: "request \<Rightarrow> cont \<Rightarrow> state \<Rightarrow> state" where
  "fetch req k s = s\<lparr>requests := requests s @ [req], pending := pending s @ [k]\<rparr>"

definition setInterval :: "state \<Rightarrow> nat \<times> state" where
  "setInterval s =
     (next_timer s, s\<lparr>timers := insert (next_timer s) (timers s), next_timer := Suc (next_timer s)\<rparr>)"

definition clearInterval :: "nat \<Rightarrow> state \<Rightarrow> state" where
  "clearInterval t s = s\<lparr>timers := timers s - {t}\<rparr>"

section \<open>The functions of app.js\<close>

definition hideAllSections :: "state \<Rightarrow> state" where
  "hideAllSections s =
     s\<lparr>elements := (elements s)\<lparr>videoCard_hidden := True, progressSection_hidden := True,
          completeSection_hidden := True, errorSection_hidden := True\<rparr>\<rparr>"

definition showError :: "jsstring \<Rightarrow> state \<Rightarrow> state" where
  "showError message s =
     (let s1 = hideAllSections s
      in s1\<lparr>elements := (elements s1)\<lparr>errorMessage_text := message, errorSection_hidden := False\<rparr>\<rparr>)"

definition setLoading :: "bool \<Rightarrow> state \<Rightarrow> state" where
  "setLoading loading s =
     (if loading
      then s\<lparr>elements := (elements s)\<lparr>btnText_hidden := True, btnLoader_hidden := False,
             analyzeBtn_disabled := True\<rparr>\<rparr>
      else s\<lparr>elements := (elements s)\<lparr>btnText_hidden := False, btnLoader_hidden := True,
             analyzeBtn_disabled := False\<rparr>\<rparr>)"

definition populateQualityOptions :: "jsstring list \<Rightarrow> state \<Rightarrow> state" where
  \<comment> \<open>the argument is not used; assigning \<open>innerHTML\<close> selects the first option\<close>
  "populateQualityOptions fs s =
     s\<lparr>elements := (elements s)\<lparr>
          qualitySelect_options :=
            [lit ''best'', lit ''1080p'', lit ''720p'', lit ''480p'', lit ''360p'', lit ''audio''],
          qualitySelect_value := lit ''best''\<rparr>\<rparr>"

definition displayVideoInfo :: "data \<Rightarrow> state \<Rightarrow> state" where
  "displayVideoInfo d s =
     (let s1 = s\<lparr>elements := (elements s)\<lparr>
                 thumbnail_src := or_else (thumbnail d) [],
                 thumbnail_alt := or_else (title d) (lit ''Video Thumbnail''),
                 duration_text := or_else (duration_string d) (lit ''00:00''),
                 videoTitle_text := or_else (title d) (lit ''Bilinmeyen Video''),
                 uploader_text := or_else (uploader d) (lit ''Bilinmeyen Kanal'')\<rparr>\<rparr>;
          s2 = (case formats d of
                  None \<Rightarrow> s1
                | Some fs \<Rightarrow> if length fs > 0 then populateQualityOptions fs s1 else s1)
      in s2\<lparr>elements := (elements s2)\<lparr>videoCard_hidden := False\<rparr>\<rparr>)"

definition msg_empty_url :: jsstring where
  \<comment> \<open>\<open>'L\<dots>tfen bir video URL\'si girin'\<close>\<close>
  "msg_empty_url = lit ''L'' @ [0xFC] @ lit ''tfen bir video URL'' @ [0x27] @ lit ''si girin''"

definition msg_connection :: jsstring where
  \<comment> \<open>\<open>'Ba\<dots>lant\<dots> hatas\<dots>: '\<close>\<close>
  "msg_connection = lit ''Ba'' @ [0x11F] @ lit ''lant'' @ [0x131] @ lit '' hatas'' @ [0x131] @ lit '': ''"

text \<open>
  \<open>handleAnalyze\<close> up to its first \<open>await\<close>, and the rest of it, run when the outcome
  of the request arrives. The \<open>finally\<close> block runs on every path through the \<open>try\<close>.
\<close>

definition handleAnalyze :: "state \<Rightarrow> state" where
  "handleAnalyze s =
     (let url = trim (urlInput_value (elements s))
      in if url = [] then showError msg_empty_url s
         else fetch (Fetch ''POST'' (API_BASE @ lit ''/analyze'')
                       [(''Content-Type'', lit ''application/json''), (''X-API-Key'', API_KEY)]
                       (Some [(''url'', Some url)]))
                AnalyzeK (hideAllSections (setLoading True s)))"

definition handleAnalyze_resume :: "fetched \<Rightarrow> state \<Rightarrow> state" where
  "handleAnalyze_resume r s =
     setLoading False
       (case awaited_json r of
          Inr d \<Rightarrow>
            if success d = Some True then displayVideoInfo d (s\<lparr>currentVideoData := Some d\<rparr>)
            else showError (or_else (error d) (lit ''Video analiz edilemedi'')) s
        | Inl m \<Rightarrow> showError (msg_connection @ m) s)"

text \<open>
  \<open>handleDownload\<close> up to its \<open>await\<close>, and the rest of it.
\<close>

definition msg_download_start :: jsstring where
  \<comment> \<open>\<open>'\<dots>ndirme ba\<dots>lat\<dots>lamad\<dots>'\<close>\<close>
  "msg_download_start =
     [0x130] @ lit ''ndirme ba'' @ [0x15F] @ lit ''lat'' @ [0x131] @ lit ''lamad'' @ [0x131]"

definition msg_download_failed :: jsstring where
  \<comment> \<open>\<open>'\<dots>ndirme ba\<dots>ar\<dots>s\<dots>z oldu'\<close>\<close>
  "msg_download_failed =
     [0x130] @ lit ''ndirme ba'' @ [0x15F] @ lit ''ar'' @ [0x131] @ lit ''s'' @ [0x131] @ lit ''z oldu''"

definition msg_file :: jsstring where
  \<comment> \<open>\<open>'Dosya indirilirken hata olu\<dots>tu'\<close>\<close>
  "msg_file = lit ''Dosya indirilirken hata olu'' @ [0x15F] @ lit ''tu''"

definition handleDownload :: "state \<Rightarrow> state" where
  "handleDownload s =
     (let url = (case currentVideoData s of
                   None \<Rightarrow> trim (urlInput_value (elements s))
                 | Some d \<Rightarrow> if truthy (webpage_url d) then the (webpage_url d)
                            else trim (urlInput_value (elements s)));
          quality = qualitySelect_value (elements s);
          requestBody = [(''url'', Some url), (''quality'', Some quality),
                         (''start_time'', None), (''end_time'', None)];
          s1 = hideAllSections s;
          s2 = s1\<lparr>elements := (elements s1)\<lparr>progressSection_hidden := False\<rparr>\<rparr>
      in fetch (Fetch ''POST'' (API_BASE @ lit ''/download'')
                  [(''Content-Type'', lit ''application/json''), (''X-API-Key'', API_KEY)]
                  (Some requestBody))
           DownloadK s2)"

definition stopProgressPolling :: "state \<Rightarrow> state" where
  "stopProgressPolling s =
     (case progressInterval s of
        None \<Rightarrow> s
      | Some t \<Rightarrow> if t \<noteq> 0 then (clearInterval t s)\<lparr>progressInterval := None\<rparr> else s)"

definition updateProgress :: "data \<Rightarrow> state \<Rightarrow> state" where
  \<comment> \<open>\<open>Math.round x\<close> is the integer nearest to \<open>x\<close>, a tie going up; a negative
     percentage is not a valid \<open>width\<close>, and the style keeps the width it had\<close>
  "updateProgress d s =
     (let p = (case progress d of None \<Rightarrow> 0 | Some x \<Rightarrow> \<lfloor>x + 1 / 2\<rfloor>)
      in s\<lparr>elements := (elements s)\<lparr>
             progressPercent := p,
             progressFill_width := (if 0 \<le> p then p else progressFill_width (elements s)),
             progressSpeed_text := or_else (speed d) (lit ''-- MB/s''),
             progressEta_text := (if truthy (eta d) then lit ''Kalan: '' @ the (eta d)
                                  else lit ''Kalan: --'')\<rparr>\<rparr>)"

definition showComplete :: "data \<Rightarrow> state \<Rightarrow> state" where
  "showComplete d s =
     (let s1 = hideAllSections s;
          fname = or_else (filename d) (lit ''video.mp4'')
      in s1\<lparr>elements := (elements s1)\<lparr>downloadFilename_text := fname,
              downloadLink_onclick := Some fname, completeSection_hidden := False\<rparr>\<rparr>)"

text \<open>
  The callback given to \<open>setInterval\<close>: up to its \<open>await\<close>, and the rest of it. The
  \<open>catch\<close> writes the error to the console and does nothing else.
\<close>

definition progressTick :: "state \<Rightarrow> state" where
  "progressTick s =
     fetch (Fetch ''GET'' (API_BASE @ lit ''/progress/'' @ template (currentJobId s))
              [(''X-API-Key'', API_KEY)] None)
       PollK s"

definition progressTick_resume :: "fetched \<Rightarrow> state \<Rightarrow> state" where
  "progressTick_resume r s =
     (case awaited_json r of
        Inr d \<Rightarrow>
          (let s1 = updateProgress d s
           in if status d = Some (lit ''completed'') then showComplete d (stopProgressPolling s1)
              else if status d = Some (lit ''failed'')
              then showError (or_else (error d) msg_download_failed) (stopProgressPolling s1)
              else s1)
      | Inl m \<Rightarrow> s\<lparr>console := console s @ [m]\<rparr>)"

definition startProgressPolling :: "state \<Rightarrow> state" where
  "startProgressPolling s =
     (let s1 = (case progressInterval s of
                  None \<Rightarrow> s
                | Some t \<Rightarrow> if t \<noteq> 0 then clearInterval t s else s);
          (t', s2) = setInterval s1
      in s2\<lparr>progressInterval := Some t'\<rparr>)"

definition handleDownload_resume :: "fetched \<Rightarrow> state \<Rightarrow> state" where
  "handleDownload_resume r s =
     (case awaited_json r of
        Inr d \<Rightarrow>
          if success d = Some True \<and> truthy (job_id d)
          then startProgressPolling (s\<lparr>currentJobId := job_id d\<rparr>)
          else showError (or_else (error d) msg_download_start) s
      | Inl m \<Rightarrow> showError (msg_connection @ m) s)"

text \<open>
  The click handler that \<open>showComplete\<close> installs on the download link: up to its first
  \<open>await\<close>, and the rest of it. A rejected \<open>fetch\<close>, a response that is not \<open>ok\<close> and a
  rejected \<open>blob()\<close> all reach the same \<open>catch\<close>. On success the blob is handed to the
  browser under \<open>filename\<close> (the click on the temporary anchor).
\<close>

definition downloadLink_click :: "state \<Rightarrow> state" where
  "downloadLink_click s =
     (case downloadLink_onclick (elements s) of
        None \<Rightarrow> s
      | Some fname \<Rightarrow>
          fetch (Fetch ''GET'' (API_BASE @ lit ''/file/'' @ template (currentJobId s))
                   [(''X-API-Key'', API_KEY)] None)
            (FileK fname) s)"

definition downloadLink_resume :: "jsstring \<Rightarrow> fetched \<Rightarrow> state \<Rightarrow> state" where
  "downloadLink_resume fname r s =
     (case r of
        Inl m \<Rightarrow> showError msg_file s
      | Inr resp \<Rightarrow>
          if \<not> ok resp then showError msg_file s
          else (case blob resp of
                  Inl m \<Rightarrow> showError msg_file s
                | Inr b \<Rightarrow> s\<lparr>saved := saved s @ [(fname, b)]\<rparr>))"

definition resetApp :: "state \<Rightarrow> state" where
  "resetApp s =
     (let s1 = stopProgressPolling s;
          s2 = s1\<lparr>currentVideoData := None, currentJobId := None\<rparr>;
          s3 = s2\<lparr>elements := (elements s2)\<lparr>urlInput_value := [], progressFill_width := 0,
                 progressPercent := 0\<rparr>\<rparr>
      in hideAllSections s3)"

section \<open>The event loop\<close>

text \<open>
  What can happen to the page: the user edits the URL field or picks a quality, a
  listener registered by \<open>init\<close> (or the handler of the download link) is invoked, an
  active interval timer fires, or the outcome of a pending request arrives and the
  suspended function runs on. Each event runs to completion before the next one.
\<close>

datatype event =
    TypeUrl jsstring
  | SelectQuality jsstring
  | ClickAnalyze
  | ClickDownload
  | ClickReset
  | ClickLink
  | Tick nat
  | Deliver nat fetched

definition resume :: "cont \<Rightarrow> fetched \<Rightarrow> state \<Rightarrow> state" where
  "resume k r s =
     (case k of
        AnalyzeK \<Rightarrow> handleAnalyze_resume r s
      | DownloadK \<Rightarrow> handleDownload_resume r s
      | PollK \<Rightarrow> progressTick_resume r s
      | FileK fname \<Rightarrow> downloadLink_resume fname r s)"

text \<open>The continuation at position \<open>i\<close> leaves the list of suspended functions.\<close>

definition consume :: "nat \<Rightarrow> state \<Rightarrow> state" where
  "consume i s = s\<lparr>pending := take i (pending s) @ drop (Suc i) (pending s)\<rparr>"

definition step :: "event \<Rightarrow> state \<Rightarrow> state" where
  "step e s =
     (case e of
        TypeUrl u \<Rightarrow> s\<lparr>elements := (elements s)\<lparr>urlInput_value := u\<rparr>\<rparr>
      | SelectQuality q \<Rightarrow> s\<lparr>elements := (elements s)\<lparr>qualitySelect_value := q\<rparr>\<rparr>
      | ClickAnalyze \<Rightarrow> handleAnalyze s
      | ClickDownload \<Rightarrow> handleDownload s
      | ClickReset \<Rightarrow> resetApp s
      | ClickLink \<Rightarrow> downloadLink_click s
      | Tick t \<Rightarrow> if t \<in> timers s then progressTick s else s
      | Deliver i r \<Rightarrow>
          if i < length (pending s)
          then resume (pending s ! i) r (consume i s)
          else s)"

fun run :: "event list \<Rightarrow> state \<Rightarrow> state" where
  "run [] s = s"
| "run (e # es) s = run es (step e s)"

text \<open>The state when the script has been loaded into a page with elements \<open>els\<close>.\<close>

definition init :: "dom_elements \<Rightarrow> state" where
  "init els =
     \<lparr>currentVideoData = None, currentJobId = None, progressInterval = None, elements = els,
      timers = {}, next_timer = 1, requests = [], pending = [], saved = [], console = []\<rparr>"

text \<open>
  The phase of the controller is not stored: it is what the page shows. The error
  section is Failed, the complete section Completed, the progress section Downloading,
  the video card Ready; with every section hidden the controller is Analyzing while
  the analyze button is disabled and Idle otherwise.
\<close>

datatype phase = Idle | Analyzing | Ready | Downloading | Completed | Failed

definition phase :: "state \<Rightarrow> phase" where
  "phase s =
     (let e = elements s
      in if \<not> errorSection_hidden e then Failed
         else if \<not> completeSection_hidden e then Completed
         else if \<not> progressSection_hidden e then Downloading
         else if \<not> videoCard_hidden e then Ready
         else if analyzeBtn_disabled e then Analyzing
         else Idle)"

text \<open>A page on which nothing is shown yet, for the examples.\<close>

definition blank_page :: dom_elements where
  "blank_page =
     \<lparr>urlInput_value = [], analyzeBtn_disabled = False, btnText_hidden = False,
      btnLoader_hidden = True, videoCard_hidden = True, thumbnail_src = [],
      thumbnail_alt = [], duration_text = [], videoTitle_text = [], uploader_text = [],
      qualitySelect_options = [lit ''best''], qualitySelect_value = lit ''best'',
      progressSection_hidden = True, progressPercent = 0, progressFill_width = 0,
      progressSpeed_text = [], progressEta_text = [], completeSection_hidden = True,
      downloadFilename_text = [], downloadLink_onclick = None, errorSection_hidden = True,
      errorMessage_text = []\<rparr>"

definition no_data :: data where
  "no_data =
     \<lparr>success = None, error = None, thumbnail = None, title = None, duration_string = None,
      uploader = None, webpage_url = None, formats = None, job_id = None, status = None,
      progress = None, speed = None, eta = None, filename = None\<rparr>"

definition replied :: "data \<Rightarrow> fetched" where
  "replied d = Inr \<lparr>ok = True, json = Inr d, blob = Inl []\<rparr>"

section \<open>Example inputs\<close>

definition blank_url :: jsstring where
  "blank_url = lit ''  '' @ [0x0009, 0x3000]"

definition example_url :: jsstring where
  "example_url = lit ''https://youtu.be/x''"

definition other_url :: jsstring where
  "other_url = lit ''https://youtu.be/y''"

definition example_video :: data where
  "example_video = no_data\<lparr>success := Some True, title := Some (lit ''Clip''),
     webpage_url := Some (lit ''https://youtu.be/x'')\<rparr>"

definition full_video :: data where
  "full_video = no_data\<lparr>success := Some True, title := Some (lit ''Clip''),
     duration_string := Some (lit ''03:21''), uploader := Some (lit ''Someone''),
     thumbnail := Some (lit ''https://i.ytimg.com/x.jpg'')\<rparr>"

definition example_job :: data where
  "example_job = no_data\<lparr>success := Some True, job_id := Some (lit ''j1'')\<rparr>"

definition other_job :: data where
  "other_job = no_data\<lparr>success := Some True, job_id := Some (lit ''j2'')\<rparr>"

definition example_completed :: data where
  "example_completed = no_data\<lparr>status := Some (lit ''completed''), progress := Some 100,
     filename := Some (lit ''x.mp4'')\<rparr>"

definition example_unnamed :: data where
  "example_unnamed = no_data\<lparr>status := Some (lit ''completed'')\<rparr>"

definition example_failed :: data where
  "example_failed = no_data\<lparr>status := Some (lit ''failed''), error := Some (lit ''disk full'')\<rparr>"

definition example_downloading :: data where
  "example_downloading = no_data\<lparr>status := Some (lit ''downloading''), progress := Some (111 / 2)\<rparr>"

text \<open>
  The user enters a URL, analyzes it, and starts a download that the server accepts as
  job \<open>j1\<close>: timer 1 polls.
\<close>

definition to_polling :: "event list" where
  "to_polling = [TypeUrl example_url, ClickAnalyze, Deliver 0 (replied example_video),
                 ClickDownload, Deliver 0 (replied example_job)]"

definition polling_state :: state where
  "polling_state = run to_polling (init blank_page)"

text \<open>The timer has fired once and the progress request is in flight.\<close>

definition awaiting_poll :: state where
  "awaiting_poll = run (to_polling @ [Tick 1]) (init blank_page)"

text \<open>The poll has reported the job completed as \<open>x.mp4\<close>.\<close>

definition completed_state :: state where
  "completed_state =
     run (to_polling @ [Tick 1, Deliver 0 (replied example_completed)]) (init blank_page)"

text \<open>
  While timer 1 polls, the user analyzes again, so that the video card with the
  download button is shown; then the download button is pressed.
\<close>

definition to_ready_while_polling :: "event list" where
  "to_ready_while_polling = to_polling @ [ClickAnalyze, Deliver 0 (replied example_video)]"

definition ready_while_polling :: state where
  "ready_while_polling = run to_ready_while_polling (init blank_page)"

definition to_second_download :: "event list" where
  "to_second_download = to_ready_while_polling @ [ClickDownload]"

text \<open>While timer 1 polls, the user resets the page.\<close>

definition to_reset :: "event list" where
  "to_reset = to_polling @ [ClickReset]"

text \<open>
  The user starts an analysis, empties the URL field and presses Enter, and only then
  the answer to the analysis arrives.
\<close>

definition to_late_answer :: "event list" where
  "to_late_answer = [TypeUrl example_url, ClickAnalyze, TypeUrl [], ClickAnalyze,
                     Deliver 0 (replied full_video)]"

section \<open>The polling timer\<close>

text \<open>
  What holds of the timers in every state the page can reach: only the timer stored in
  \<open>progressInterval\<close> can be active, the stored id is never 0, the next id is
  positive, and a timer is active only while a job id is stored.
\<close>

definition timer_inv :: "state \<Rightarrow> bool" where
  "timer_inv s \<longleftrightarrow>
     timers s \<subseteq> set_option (progressInterval s) \<and> progressInterval s \<noteq> Some 0
     \<and> 0 < next_timer s
     \<and> (timers s = {} \<or> truthy (currentJobId s))"

lemmas app_defs = step_def resume_def consume_def handleAnalyze_def handleAnalyze_resume_def
  handleDownload_def handleDownload_resume_def startProgressPolling_def stopProgressPolling_def
  progressTick_def progressTick_resume_def updateProgress_def showComplete_def showError_def
  hideAllSections_def setLoading_def displayVideoInfo_def populateQualityOptions_def
  downloadLink_click_def downloadLink_resume_def resetApp_def fetch_def setInterval_def
  clearInterval_def awaited_json_def truthy_def or_else_def template_def init_def phase_def
  replied_def no_data_def blank_page_def trim_def isWhiteSpace_def lit_def Let_def

lemmas example_defs = blank_url_def example_url_def other_url_def example_video_def
  full_video_def example_job_def other_job_def example_completed_def example_unnamed_def
  example_failed_def example_downloading_def to_polling_def polling_state_def awaiting_poll_def
  completed_state_def to_ready_while_polling_def ready_while_polling_def to_second_download_def
  to_reset_def to_late_answer_def

lemma inv_elements [simp]: "timer_inv (s\<lparr>elements := e\<rparr>) = timer_inv s"
  by (simp add: timer_inv_def)

lemma inv_pending [simp]: "timer_inv (s\<lparr>pending := p\<rparr>) = timer_inv s"
  by (simp add: timer_inv_def)

lemma inv_console [simp]: "timer_inv (s\<lparr>console := c\<rparr>) = timer_inv s"
  by (simp add: timer_inv_def)

lemma inv_saved [simp]: "timer_inv (s\<lparr>saved := c\<rparr>) = timer_inv s"
  by (simp add: timer_inv_def)

lemma inv_currentVideoData [simp]: "timer_inv (s\<lparr>currentVideoData := c\<rparr>) = timer_inv s"
  by (simp add: timer_inv_def)

lemma inv_consume [simp]: "timer_inv (consume i s) = timer_inv s"
  by (simp add: consume_def)

lemma inv_fetch [simp]: "timer_inv (fetch q k s) = timer_inv s"
  by (simp add: timer_inv_def fetch_def)

lemma inv_hideAllSections [simp]: "timer_inv (hideAllSections s) = timer_inv s"
  by (simp add: hideAllSections_def)

lemma inv_showError [simp]: "timer_inv (showError m s) = timer_inv s"
  by (simp add: showError_def Let_def)

lemma inv_setLoading [simp]: "timer_inv (setLoading b s) = timer_inv s"
  by (simp add: setLoading_def)

lemma inv_displayVideoInfo [simp]: "timer_inv (displayVideoInfo d s) = timer_inv s"
  by (simp add: displayVideoInfo_def populateQualityOptions_def Let_def split: option.splits)

lemma inv_updateProgress [simp]: "timer_inv (updateProgress d s) = timer_inv s"
  by (simp add: updateProgress_def Let_def)

lemma inv_showComplete [simp]: "timer_inv (showComplete d s) = timer_inv s"
  by (simp add: showComplete_def Let_def)

lemma stop_clears:
  "timer_inv s \<Longrightarrow>
     timers (stopProgressPolling s) = {} \<and> progressInterval (stopProgressPolling s) = None"
  by (auto simp: timer_inv_def stopProgressPolling_def clearInterval_def split: option.splits)

lemma inv_stop: "timer_inv s \<Longrightarrow> timer_inv (stopProgressPolling s)"
  by (auto simp: timer_inv_def stopProgressPolling_def clearInterval_def split: option.splits)

lemma start_installs:
  "timer_inv s \<Longrightarrow>
     timers (startProgressPolling s) = {next_timer s}
     \<and> progressInterval (startProgressPolling s) = Some (next_timer s)"
  by (auto simp: timer_inv_def startProgressPolling_def clearInterval_def setInterval_def
      split: option.splits)

lemma inv_start:
  "timer_inv s \<Longrightarrow> truthy (currentJobId s) \<Longrightarrow> timer_inv (startProgressPolling s)"
  by (auto simp: timer_inv_def startProgressPolling_def clearInterval_def setInterval_def
      split: option.splits)

lemma inv_jobId: "timer_inv s \<Longrightarrow> truthy j \<Longrightarrow> timer_inv (s\<lparr>currentJobId := j\<rparr>)"
  by (simp add: timer_inv_def)

lemma inv_handleAnalyze: "timer_inv s \<Longrightarrow> timer_inv (handleAnalyze s)"
  by (simp add: handleAnalyze_def Let_def)

lemma inv_handleAnalyze_resume: "timer_inv s \<Longrightarrow> timer_inv (handleAnalyze_resume r s)"
  by (simp add: handleAnalyze_resume_def split: sum.splits)

lemma inv_handleDownload: "timer_inv s \<Longrightarrow> timer_inv (handleDownload s)"
  by (simp add: handleDownload_def Let_def)

lemma inv_handleDownload_resume: "timer_inv s \<Longrightarrow> timer_inv (handleDownload_resume r s)"
  by (auto simp: handleDownload_resume_def inv_start inv_jobId split: sum.splits)

lemma inv_progressTick: "timer_inv s \<Longrightarrow> timer_inv (progressTick s)"
  by (simp add: progressTick_def)

lemma inv_progressTick_resume: "timer_inv s \<Longrightarrow> timer_inv (progressTick_resume r s)"
  by (simp add: progressTick_resume_def Let_def inv_stop split: sum.splits)

lemma inv_downloadLink_click: "timer_inv s \<Longrightarrow> timer_inv (downloadLink_click s)"
  by (simp add: downloadLink_click_def split: option.splits)

lemma inv_downloadLink_resume: "timer_inv s \<Longrightarrow> timer_inv (downloadLink_resume f r s)"
  by (simp add: downloadLink_resume_def split: sum.splits)

lemma inv_resetApp: "timer_inv s \<Longrightarrow> timer_inv (resetApp s)"
proof -
  assume a: "timer_inv s"
  have "timers (stopProgressPolling s) = {}" "progressInterval (stopProgressPolling s) = None"
    using stop_clears [OF a] by simp_all
  moreover have "0 < next_timer (stopProgressPolling s)"
    using inv_stop [OF a] by (simp add: timer_inv_def)
  ultimately show ?thesis
    by (simp add: resetApp_def Let_def timer_inv_def hideAllSections_def)
qed

lemma inv_resume: "timer_inv s \<Longrightarrow> timer_inv (resume k r s)"
  by (cases k)
    (simp_all add: resume_def inv_handleAnalyze_resume inv_handleDownload_resume
      inv_progressTick_resume inv_downloadLink_resume)

lemma inv_step: "timer_inv s \<Longrightarrow> timer_inv (step e s)"
  by (cases e)
    (simp_all add: step_def inv_handleAnalyze inv_handleDownload inv_resetApp
      inv_downloadLink_click inv_progressTick inv_resume)

lemma inv_run: "timer_inv s \<Longrightarrow> timer_inv (run es s)"
  by (induction es arbitrary: s) (simp_all add: inv_step)

lemma inv_init: "timer_inv (init els)"
  by (simp add: timer_inv_def init_def)

lemma inv_reachable: "timer_inv (run es (init els))"
  by (rule inv_run [OF inv_init])

lemma inv_card: "timer_inv s \<Longrightarrow> card (timers s) \<le> 1"
proof -
  assume "timer_inv s"
  then have sub: "timers s \<subseteq> set_option (progressInterval s)"
    by (simp add: timer_inv_def)
  have "card (set_option (progressInterval s)) \<le> 1"
    by (cases "progressInterval s") simp_all
  moreover have "card (timers s) \<le> card (set_option (progressInterval s))"
    using sub by (intro card_mono) (cases "progressInterval s", simp_all)
  ultimately show ?thesis by simp
qed

lemma deliver_poll:
  "i < length (pending s) \<Longrightarrow> pending s ! i = PollK \<Longrightarrow>
     step (Deliver i r) s = progressTick_resume r (consume i s)"
  by (simp add: step_def resume_def)

lemma deliver_download:
  "i < length (pending s) \<Longrightarrow> pending s ! i = DownloadK \<Longrightarrow>
     step (Deliver i r) s = handleDownload_resume r (consume i s)"
  by (simp add: step_def resume_def)


lemma deliver_file:
  "i < length (pending s) \<Longrightarrow> pending s ! i = FileK fname \<Longrightarrow>
     step (Deliver i r) s = downloadLink_resume fname r (consume i s)"
  by (simp add: step_def resume_def)

lemma consume_frame:
  "timers (consume i s) = timers s \<and> progressInterval (consume i s) = progressInterval s
   \<and> next_timer (consume i s) = next_timer s \<and> elements (consume i s) = elements s
   \<and> currentJobId (consume i s) = currentJobId s \<and> saved (consume i s) = saved s
   \<and> requests (consume i s) = requests s \<and> console (consume i s) = console s
   \<and> phase (consume i s) = phase s"
  by (simp add: consume_def phase_def)

text \<open>
  Claim C1, as the code has it. In every state the page can reach at most one timer is
  active, and it is the one stored in \<open>progressInterval\<close>. \<open>handleDownload\<close> itself
  leaves the timers as they are; when the download-start request succeeds with a job
  id, \<open>startProgressPolling\<close> clears the stored timer and installs the next one, which
  is then the only active timer.
\<close>

theorem C1_at_most_one_timer:
  assumes "s = run evs (init els)"
  shows "card (timers s) \<le> 1
       \<and> timers s \<subseteq> set_option (progressInterval s)
       \<and> timers (step ClickDownload s) = timers s
       \<and> (i < length (pending s) \<and> pending s ! i = DownloadK \<and> awaited_json r = Inr d
            \<and> success d = Some True \<and> truthy (job_id d) \<longrightarrow>
          timers (step (Deliver i r) s) = {next_timer s}
          \<and> progressInterval (step (Deliver i r) s) = Some (next_timer s))"
proof -
  have inv: "timer_inv s" unfolding assms by (rule inv_reachable)
  have 1: "card (timers s) \<le> 1" using inv by (rule inv_card)
  have 2: "timers s \<subseteq> set_option (progressInterval s)"
    using inv by (simp add: timer_inv_def)
  have 3: "timers (step ClickDownload s) = timers s"
    by (simp add: step_def handleDownload_def fetch_def hideAllSections_def Let_def)
  have 4: "timers (step (Deliver i r) s) = {next_timer s}
           \<and> progressInterval (step (Deliver i r) s) = Some (next_timer s)"
    if "i < length (pending s)" "pending s ! i = DownloadK" "awaited_json r = Inr d"
      "success d = Some True" "truthy (job_id d)"
  proof -
    have "timer_inv ((consume i s)\<lparr>currentJobId := job_id d\<rparr>)"
      using inv that(5) by (simp add: inv_jobId)
    from start_installs [OF this] show ?thesis
      using that by (simp add: deliver_download handleDownload_resume_def consume_def)
  qed
  show ?thesis using 1 2 3 4 by blast
qed

theorem C1_witness:
  "0 < length (pending (run to_second_download (init blank_page)))
   \<and> pending (run to_second_download (init blank_page)) ! 0 = DownloadK
   \<and> awaited_json (replied other_job) = Inr other_job
   \<and> success other_job = Some True \<and> truthy (job_id other_job)
   \<and> timers (run to_second_download (init blank_page)) = {1}
   \<and> timers (step (Deliver 0 (replied other_job)) (run to_second_download (init blank_page))) = {2}"
proof -
  have p: "pending (run to_second_download (init blank_page)) = [DownloadK]"
    and n: "next_timer (run to_second_download (init blank_page)) = 2"
    and t: "timers (run to_second_download (init blank_page)) = {1}"
    by (simp_all add: example_defs app_defs)
  have h: "awaited_json (replied other_job) = Inr other_job \<and> success other_job = Some True
     \<and> truthy (job_id other_job)"
    by (simp add: other_job_def app_defs)
  show ?thesis
    using h p t n
      C1_at_most_one_timer [OF refl, where evs = to_second_download and els = blank_page
        and i = 0 and r = "replied other_job" and d = other_job]
    by simp
qed

text \<open>
  Claim C1 as stated fails: with timer 1 polling and the video card shown,
  \<open>handleDownload\<close> issues its request and suspends with timer 1 still active; when
  the server then refuses the download the error is shown and timer 1 still runs.
\<close>

theorem C1_counterexample:
  "timers ready_while_polling = {1}
   \<and> phase ready_while_polling = Ready
   \<and> timers (step ClickDownload ready_while_polling) = {1}
   \<and> pending (step ClickDownload ready_while_polling) = [DownloadK]
   \<and> length (requests (step ClickDownload ready_while_polling))
       = Suc (length (requests ready_while_polling))
   \<and> timers (run [ClickDownload, Deliver 0 (replied no_data)] ready_while_polling) = {1}
   \<and> phase (run [ClickDownload, Deliver 0 (replied no_data)] ready_while_polling) = Failed"
  by (simp add: example_defs app_defs)

text \<open>
  The interval callback does not test \<open>currentJobId\<close>: whenever it runs it issues one
  progress request, for whatever the variable holds. While a timer is active a job id
  is stored, so the request of a tick names that job.
\<close>

lemma progressTick_issues_request:
  "requests (progressTick s) =
     requests s @ [Fetch ''GET'' (API_BASE @ lit ''/progress/'' @ template (currentJobId s))
                     [(''X-API-Key'', API_KEY)] None]"
  by (simp add: progressTick_def fetch_def)

lemma active_timer_polls_job:
  assumes "t \<in> timers (run evs (init els))"
  shows "\<exists>j. currentJobId (run evs (init els)) = Some j \<and> j \<noteq> []
           \<and> requests (step (Tick t) (run evs (init els))) =
               requests (run evs (init els)) @
                 [Fetch ''GET'' (API_BASE @ lit ''/progress/'' @ j) [(''X-API-Key'', API_KEY)] None]"
proof -
  have "timer_inv (run evs (init els))" by (rule inv_reachable)
  with assms have "truthy (currentJobId (run evs (init els)))"
    by (auto simp: timer_inv_def)
  then obtain j where j: "currentJobId (run evs (init els)) = Some j" "j \<noteq> []"
    by (auto simp: truthy_def split: option.splits)
  with assms show ?thesis
    by (simp add: step_def progressTick_def fetch_def template_def)
qed



section \<open>Poll responses\<close>

lemma phase_showError: "phase (showError m s) = Failed"
  by (simp add: phase_def showError_def hideAllSections_def Let_def)

lemma phase_showComplete: "phase (showComplete d s) = Completed"
  by (simp add: phase_def showComplete_def hideAllSections_def Let_def)

lemma phase_updateProgress: "phase (updateProgress d s) = phase s"
  by (simp add: phase_def updateProgress_def Let_def)

lemma timers_updateProgress:
  "timers (updateProgress d s) = timers s
   \<and> progressInterval (updateProgress d s) = progressInterval s"
  by (simp add: updateProgress_def Let_def)

lemma timers_showComplete:
  "timers (showComplete d s) = timers s
   \<and> progressInterval (showComplete d s) = progressInterval s"
  by (simp add: showComplete_def hideAllSections_def Let_def)

lemma timers_showError:
  "timers (showError m s) = timers s \<and> progressInterval (showError m s) = progressInterval s"
  by (simp add: showError_def hideAllSections_def Let_def)

lemma stop_frame:
  "elements (stopProgressPolling s) = elements s \<and> pending (stopProgressPolling s) = pending s
   \<and> saved (stopProgressPolling s) = saved s \<and> requests (stopProgressPolling s) = requests s"
  by (simp add: stopProgressPolling_def clearInterval_def split: option.splits)

lemma updateProgress_frame:
  "pending (updateProgress d s) = pending s \<and> saved (updateProgress d s) = saved s
   \<and> requests (updateProgress d s) = requests s"
  by (simp add: updateProgress_def Let_def)

lemma showComplete_frame:
  "pending (showComplete d s) = pending s \<and> saved (showComplete d s) = saved s
   \<and> requests (showComplete d s) = requests s"
  by (simp add: showComplete_def hideAllSections_def Let_def)

text \<open>
  Claim C2. In a state the page can reach, let the body of a poll response arrive. With
  status \<open>completed\<close> no timer is left active, the stored timer is cleared, and the page
  shows the complete section with the reported file name (\<open>video.mp4\<close> when the name
  is absent or empty), which the download link keeps. With status \<open>failed\<close> no timer is
  left active and the page shows the error section with the reported message (the
  fixed message when it is absent or empty). With any other status the timers and the
  phase are as before.
\<close>

theorem C2_terminal_status:
  assumes "s = run evs (init els)"
    and "i < length (pending s)" and "pending s ! i = PollK"
    and "awaited_json r = Inr d" and "s' = step (Deliver i r) s"
  shows "(status d = Some (lit ''completed'') \<longrightarrow>
            timers s' = {} \<and> progressInterval s' = None \<and> phase s' = Completed
            \<and> downloadFilename_text (elements s') = or_else (filename d) (lit ''video.mp4'')
            \<and> downloadLink_onclick (elements s') = Some (or_else (filename d) (lit ''video.mp4'')))
       \<and> (status d = Some (lit ''failed'') \<longrightarrow>
            timers s' = {} \<and> progressInterval s' = None \<and> phase s' = Failed
            \<and> errorMessage_text (elements s') = or_else (error d) msg_download_failed)
       \<and> (status d \<noteq> Some (lit ''completed'') \<and> status d \<noteq> Some (lit ''failed'') \<longrightarrow>
            timers s' = timers s \<and> progressInterval s' = progressInterval s \<and> phase s' = phase s)"
proof -
  have "timer_inv s" unfolding assms(1) by (rule inv_reachable)
  then have "timer_inv (updateProgress d (consume i s))" by simp
  note st = stop_clears [OF this]
  have s': "s' = progressTick_resume r (consume i s)"
    using assms(2,3,5) by (simp add: deliver_poll)
  have ne: "lit ''completed'' \<noteq> lit ''failed''" by (simp add: lit_def)
  have c: ?thesis if "status d = Some (lit ''completed'')"
    using that assms(4) s' st ne
    by (simp add: progressTick_resume_def Let_def phase_showComplete timers_showComplete)
       (simp add: showComplete_def Let_def hideAllSections_def)
  have f: ?thesis if "status d = Some (lit ''failed'')"
    using that assms(4) s' st ne
    by (simp add: progressTick_resume_def Let_def phase_showError timers_showError)
       (simp add: showError_def Let_def hideAllSections_def)
  have o: ?thesis if "status d \<noteq> Some (lit ''completed'')" "status d \<noteq> Some (lit ''failed'')"
    using that assms(4) s'
    by (simp add: progressTick_resume_def Let_def phase_updateProgress timers_updateProgress
        consume_frame)
  show ?thesis using c f o by blast
qed

theorem C2_witness:
  "0 < length (pending awaiting_poll) \<and> pending awaiting_poll ! 0 = PollK
   \<and> timers awaiting_poll = {1}
   \<and> awaited_json (replied example_failed) = Inr example_failed
   \<and> status example_failed = Some (lit ''failed'')
   \<and> timers (step (Deliver 0 (replied example_failed)) awaiting_poll) = {}
   \<and> phase (step (Deliver 0 (replied example_failed)) awaiting_poll) = Failed
   \<and> errorMessage_text (elements (step (Deliver 0 (replied example_failed)) awaiting_poll))
       = lit ''disk full''
   \<and> status example_completed = Some (lit ''completed'')
   \<and> timers (step (Deliver 0 (replied example_completed)) awaiting_poll) = {}
   \<and> phase (step (Deliver 0 (replied example_completed)) awaiting_poll) = Completed
   \<and> downloadFilename_text (elements (step (Deliver 0 (replied example_completed)) awaiting_poll))
       = lit ''x.mp4''
   \<and> status example_downloading \<noteq> Some (lit ''completed'')
   \<and> status example_downloading \<noteq> Some (lit ''failed'')
   \<and> timers (step (Deliver 0 (replied example_downloading)) awaiting_poll) = {1}
   \<and> phase (step (Deliver 0 (replied example_downloading)) awaiting_poll) = Downloading"
proof -
  have s: "awaiting_poll = run (to_polling @ [Tick 1]) (init blank_page)"
    by (rule awaiting_poll_def)
  have p: "0 < length (pending awaiting_poll)" "pending awaiting_poll ! 0 = PollK"
    and t: "timers awaiting_poll = {1}" "phase awaiting_poll = Downloading"
    by (simp_all add: example_defs app_defs)
  have j: "awaited_json (replied d) = Inr d" for d
    by (simp add: awaited_json_def replied_def)
  have st: "status example_failed = Some (lit ''failed'')"
    "status example_completed = Some (lit ''completed'')"
    "status example_downloading \<noteq> Some (lit ''completed'')"
    "status example_downloading \<noteq> Some (lit ''failed'')"
    by (simp_all add: example_defs no_data_def lit_def)
  have v: "or_else (error example_failed) msg_download_failed = lit ''disk full''"
    "or_else (filename example_completed) (lit ''video.mp4'') = lit ''x.mp4''"
    by (simp_all add: example_defs no_data_def lit_def or_else_def)
  show ?thesis
    using p j st v t
      C2_terminal_status [OF s p j [of example_failed] refl]
      C2_terminal_status [OF s p j [of example_completed] refl]
      C2_terminal_status [OF s p j [of example_downloading] refl]
    by simp
qed

text \<open>
  Claim C4. When the progress request of a tick is rejected, or its body cannot be
  parsed, the suspended callback only writes to the console: the variables, the
  elements (so the phase) and the timers are as before, and the next tick of an active
  timer issues a progress request again.
\<close>

theorem C4_failed_poll_is_swallowed:
  assumes "i < length (pending s)" and "pending s ! i = PollK" and "awaited_json r = Inl m"
  shows "step (Deliver i r) s = (consume i s)\<lparr>console := console s @ [m]\<rparr>
       \<and> elements (step (Deliver i r) s) = elements s
       \<and> phase (step (Deliver i r) s) = phase s
       \<and> timers (step (Deliver i r) s) = timers s
       \<and> progressInterval (step (Deliver i r) s) = progressInterval s
       \<and> currentJobId (step (Deliver i r) s) = currentJobId s
       \<and> currentVideoData (step (Deliver i r) s) = currentVideoData s
       \<and> (t \<in> timers s \<longrightarrow>
            requests (step (Tick t) (step (Deliver i r) s)) =
              requests s @ [Fetch ''GET'' (API_BASE @ lit ''/progress/'' @ template (currentJobId s))
                              [(''X-API-Key'', API_KEY)] None])"
proof -
  have e: "step (Deliver i r) s = (consume i s)\<lparr>console := console s @ [m]\<rparr>"
    using assms by (simp add: deliver_poll progressTick_resume_def consume_def)
  show ?thesis
    unfolding e by (simp add: consume_def phase_def step_def progressTick_def fetch_def)
qed

theorem C4_witness:
  "0 < length (pending awaiting_poll) \<and> pending awaiting_poll ! 0 = PollK
   \<and> awaited_json (Inl (lit ''Failed to fetch'')) = Inl (lit ''Failed to fetch'')
   \<and> 1 \<in> timers awaiting_poll
   \<and> phase awaiting_poll = Downloading
   \<and> phase (step (Deliver 0 (Inl (lit ''Failed to fetch''))) awaiting_poll) = Downloading
   \<and> timers (step (Deliver 0 (Inl (lit ''Failed to fetch''))) awaiting_poll) = {1}
   \<and> requests (step (Tick 1) (step (Deliver 0 (Inl (lit ''Failed to fetch''))) awaiting_poll)) =
        requests awaiting_poll @
          [Fetch ''GET'' (lit ''/api/progress/j1'') [(''X-API-Key'', API_KEY)] None]"
proof -
  have p: "0 < length (pending awaiting_poll)" "pending awaiting_poll ! 0 = PollK"
    and t: "timers awaiting_poll = {1}" "phase awaiting_poll = Downloading"
      "currentJobId awaiting_poll = Some (lit ''j1'')"
    by (simp_all add: example_defs app_defs)
  have h: "awaited_json (Inl (lit ''Failed to fetch'')) = Inl (lit ''Failed to fetch'')"
    by (simp add: awaited_json_def)
  have u: "API_BASE @ lit ''/progress/'' @ template (currentJobId awaiting_poll)
             = lit ''/api/progress/j1''"
    using t(3) by (simp add: API_BASE_def template_def lit_def)
  have m: "1 \<in> timers awaiting_poll"
    using t(1) by simp
  note th = C4_failed_poll_is_swallowed [OF p h, where t = 1]
  from th have a: "phase (step (Deliver 0 (Inl (lit ''Failed to fetch''))) awaiting_poll)
                     = phase awaiting_poll"
    by blast
  from th have b: "timers (step (Deliver 0 (Inl (lit ''Failed to fetch''))) awaiting_poll)
                     = timers awaiting_poll"
    by blast
  from th m have c:
    "requests (step (Tick 1) (step (Deliver 0 (Inl (lit ''Failed to fetch''))) awaiting_poll)) =
       requests awaiting_poll @
         [Fetch ''GET'' (API_BASE @ lit ''/progress/'' @ template (currentJobId awaiting_poll))
            [(''X-API-Key'', API_KEY)] None]"
    by blast
  show ?thesis
    unfolding a b c u using p h m t by simp
qed

lemma link_roundtrip:
  assumes "downloadLink_onclick (elements s) = Some fname"
  shows "pending (step ClickLink s) = pending s @ [FileK fname]
       \<and> saved (run [ClickLink, Deliver (length (pending s))
                                  (Inr \<lparr>ok = True, json = j, blob = Inr b\<rparr>)] s)
           = saved s @ [(fname, b)]"
  using assms
  by (simp add: step_def downloadLink_click_def fetch_def resume_def downloadLink_resume_def
      nth_append consume_def)

text \<open>
  Claim C9. When the body of a poll response has status \<open>completed\<close> and no file name,
  the page shows \<open>video.mp4\<close> as the file name and the handler installed on the
  download link closes over it: a click on the link followed by a successful file
  response saves the payload under \<open>video.mp4\<close>.
\<close>

theorem C9_default_filename:
  assumes "i < length (pending s)" and "pending s ! i = PollK"
    and "awaited_json r = Inr d" and "status d = Some (lit ''completed'')"
    and "filename d = None" and "s' = step (Deliver i r) s"
  shows "downloadFilename_text (elements s') = lit ''video.mp4''
       \<and> downloadLink_onclick (elements s') = Some (lit ''video.mp4'')
       \<and> pending (step ClickLink s') = pending s' @ [FileK (lit ''video.mp4'')]
       \<and> saved (run [ClickLink, Deliver (length (pending s'))
                                  (Inr \<lparr>ok = True, json = j, blob = Inr b\<rparr>)] s')
           = saved s @ [(lit ''video.mp4'', b)]"
proof -
  have s': "s' = showComplete d (stopProgressPolling (updateProgress d (consume i s)))"
    using assms by (simp add: deliver_poll progressTick_resume_def Let_def)
  have t: "downloadFilename_text (elements s') = lit ''video.mp4''"
    and k: "downloadLink_onclick (elements s') = Some (lit ''video.mp4'')"
    unfolding s' using assms(5) by (simp_all add: showComplete_def or_else_def Let_def)
  have sv: "saved s' = saved s"
    unfolding s' by (simp add: showComplete_frame stop_frame updateProgress_frame consume_frame)
  show ?thesis
    using t k link_roundtrip [OF k, of j b] sv by simp
qed

theorem C9_witness:
  "0 < length (pending awaiting_poll) \<and> pending awaiting_poll ! 0 = PollK
   \<and> awaited_json (replied example_unnamed) = Inr example_unnamed
   \<and> status example_unnamed = Some (lit ''completed'') \<and> filename example_unnamed = None
   \<and> downloadFilename_text (elements (step (Deliver 0 (replied example_unnamed)) awaiting_poll))
       = lit ''video.mp4''
   \<and> saved (run [ClickLink, Deliver 0 (Inr \<lparr>ok = True, json = Inl [], blob = Inr [1, 2, 3]\<rparr>)]
        (step (Deliver 0 (replied example_unnamed)) awaiting_poll))
       = [(lit ''video.mp4'', [1, 2, 3])]"
proof -
  have p: "0 < length (pending awaiting_poll)" "pending awaiting_poll ! 0 = PollK"
    by (simp_all add: example_defs app_defs)
  have h1: "awaited_json (replied example_unnamed) = Inr example_unnamed"
    by (simp add: awaited_json_def replied_def)
  have h2: "status example_unnamed = Some (lit ''completed'')"
    and h3: "filename example_unnamed = None"
    by (simp_all add: example_unnamed_def no_data_def)
  have l: "length (pending (step (Deliver 0 (replied example_unnamed)) awaiting_poll)) = 0"
    "saved awaiting_poll = []"
    by (simp_all add: example_defs app_defs)
  note th = C9_default_filename [OF p h1 h2 h3 refl, where j = "Inl []" and b = "[1, 2, 3]",
      unfolded l]
  show ?thesis
    using p h1 h2 h3 th by simp
qed

section \<open>File retrieval\<close>

text \<open>
  Claim C6, as the code has it. When the file response is not \<open>ok\<close>, the handler calls
  \<open>showError\<close>: every section is hidden, the complete section among them, and the
  error section shows the fixed file message, so the page shows Failed. The job id and
  the handler on the link are kept. When the response is \<open>ok\<close> and its payload can be
  read, the payload is saved under the file name and nothing else changes, so a
  successful retrieval can be repeated.
\<close>

theorem C6_failed_retrieval_shows_error:
  assumes "i < length (pending s)" and "pending s ! i = FileK fname"
    and "s' = step (Deliver i (Inr resp)) s"
  shows "(\<not> ok resp \<longrightarrow>
            s' = showError msg_file (consume i s)
            \<and> phase s' = Failed
            \<and> completeSection_hidden (elements s')
            \<and> errorMessage_text (elements s') = msg_file
            \<and> currentJobId s' = currentJobId s
            \<and> downloadLink_onclick (elements s') = downloadLink_onclick (elements s))
       \<and> (ok resp \<and> blob resp = Inr b \<longrightarrow>
            s' = (consume i s)\<lparr>saved := saved s @ [(fname, b)]\<rparr>
            \<and> phase s' = phase s
            \<and> downloadLink_onclick (elements s') = downloadLink_onclick (elements s))"
proof -
  have s': "s' = downloadLink_resume fname (Inr resp) (consume i s)"
    using assms by (simp add: deliver_file)
  have n: "s' = showError msg_file (consume i s)" if "\<not> ok resp"
    using that unfolding s' by (simp add: downloadLink_resume_def)
  have y: "s' = (consume i s)\<lparr>saved := saved s @ [(fname, b)]\<rparr>" if "ok resp" "blob resp = Inr b"
    using that unfolding s' by (simp add: downloadLink_resume_def consume_def)
  have 1: "phase (showError msg_file (consume i s)) = Failed
     \<and> completeSection_hidden (elements (showError msg_file (consume i s)))
     \<and> errorMessage_text (elements (showError msg_file (consume i s))) = msg_file
     \<and> currentJobId (showError msg_file (consume i s)) = currentJobId s
     \<and> downloadLink_onclick (elements (showError msg_file (consume i s)))
         = downloadLink_onclick (elements s)"
    by (simp add: phase_showError) (simp add: showError_def hideAllSections_def consume_def Let_def)
  have 2: "phase ((consume i s)\<lparr>saved := saved s @ [(fname, b)]\<rparr>) = phase s
     \<and> downloadLink_onclick (elements ((consume i s)\<lparr>saved := saved s @ [(fname, b)]\<rparr>))
         = downloadLink_onclick (elements s)"
    by (simp add: phase_def consume_def)
  show ?thesis
    using n y 1 2 by auto
qed

theorem C6_witness:
  "0 < length (pending (step ClickLink completed_state))
   \<and> pending (step ClickLink completed_state) ! 0 = FileK (lit ''x.mp4'')
   \<and> \<not> ok \<lparr>ok = False, json = Inl [], blob = Inr []\<rparr>
   \<and> phase (step (Deliver 0 (Inr \<lparr>ok = False, json = Inl [], blob = Inr []\<rparr>))
        (step ClickLink completed_state)) = Failed
   \<and> ok \<lparr>ok = True, json = Inl [], blob = Inr [1, 2, 3]\<rparr>
   \<and> blob \<lparr>ok = True, json = Inl [], blob = Inr [1, 2, 3]\<rparr> = Inr [1, 2, 3]
   \<and> phase (step ClickLink completed_state) = Completed
   \<and> phase (step (Deliver 0 (Inr \<lparr>ok = True, json = Inl [], blob = Inr [1, 2, 3]\<rparr>))
        (step ClickLink completed_state)) = Completed"
proof -
  have p: "0 < length (pending (step ClickLink completed_state))"
    "pending (step ClickLink completed_state) ! 0 = FileK (lit ''x.mp4'')"
    and q: "phase (step ClickLink completed_state) = Completed"
    by (simp_all add: example_defs app_defs)
  have na: "\<not> ok \<lparr>ok = False, json = Inl [], blob = Inr []\<rparr>"
    and ob: "ok \<lparr>ok = True, json = Inl [], blob = Inr [1, 2, 3]\<rparr>
       \<and> blob \<lparr>ok = True, json = Inl [], blob = Inr [1, 2, 3]\<rparr> = Inr [1, 2, 3]"
    by simp_all
  note a = C6_failed_retrieval_shows_error
    [OF p refl, where resp = "\<lparr>ok = False, json = Inl [], blob = Inr []\<rparr>"]
  note b = C6_failed_retrieval_shows_error
    [OF p refl, where resp = "\<lparr>ok = True, json = Inl [], blob = Inr [1, 2, 3]\<rparr>"
      and b = "[1, 2, 3]"]
  from a na have a':
    "phase (step (Deliver 0 (Inr \<lparr>ok = False, json = Inl [], blob = Inr []\<rparr>))
        (step ClickLink completed_state)) = Failed"
    by blast
  from b ob have b':
    "phase (step (Deliver 0 (Inr \<lparr>ok = True, json = Inl [], blob = Inr [1, 2, 3]\<rparr>))
        (step ClickLink completed_state)) = phase (step ClickLink completed_state)"
    by blast
  show ?thesis
    unfolding a' b' using p q by simp
qed

text \<open>
  Claim C6 as stated fails: in the Completed phase, a click on the link answered by a
  response that is not \<open>ok\<close> leaves the page in Failed with the complete section
  hidden.
\<close>

theorem C6_counterexample:
  "phase completed_state = Completed
   \<and> downloadFilename_text (elements completed_state) = lit ''x.mp4''
   \<and> pending (step ClickLink completed_state) = [FileK (lit ''x.mp4'')]
   \<and> phase (run [ClickLink, Deliver 0 (Inr \<lparr>ok = False, json = Inl [], blob = Inr []\<rparr>)]
        completed_state) = Failed
   \<and> completeSection_hidden (elements
        (run [ClickLink, Deliver 0 (Inr \<lparr>ok = False, json = Inl [], blob = Inr []\<rparr>)]
          completed_state))
   \<and> errorMessage_text (elements
        (run [ClickLink, Deliver 0 (Inr \<lparr>ok = False, json = Inl [], blob = Inr []\<rparr>)]
          completed_state)) = msg_file"
  by (simp add: example_defs app_defs)

section \<open>Analyzing a video\<close>

text \<open>
  Claim C3, as the code has it. \<open>resetApp\<close> clears the stored video data and the job
  id. \<open>handleAnalyze\<close> changes neither of them when it issues its request; when the
  outcome arrives the job id is still unchanged, and the video data is replaced by the
  response when that reports success and is unchanged otherwise.
\<close>

theorem C3_metadata_cleared_by_reset_only:
  "currentVideoData (resetApp s) = None \<and> currentJobId (resetApp s) = None
   \<and> currentVideoData (handleAnalyze s) = currentVideoData s
   \<and> currentJobId (handleAnalyze s) = currentJobId s
   \<and> currentJobId (handleAnalyze_resume r s) = currentJobId s
   \<and> currentVideoData (handleAnalyze_resume r s) =
       (case awaited_json r of
          Inr d \<Rightarrow> if success d = Some True then Some d else currentVideoData s
        | Inl m \<Rightarrow> currentVideoData s)"
proof -
  have 1: "currentVideoData (resetApp s) = None \<and> currentJobId (resetApp s) = None"
    by (simp add: resetApp_def hideAllSections_def Let_def)
  have 2: "currentVideoData (handleAnalyze s) = currentVideoData s
     \<and> currentJobId (handleAnalyze s) = currentJobId s"
    by (simp add: handleAnalyze_def showError_def hideAllSections_def setLoading_def fetch_def Let_def)
  have 3: "currentJobId (handleAnalyze_resume r s) = currentJobId s"
    by (simp add: handleAnalyze_resume_def showError_def hideAllSections_def setLoading_def
        displayVideoInfo_def populateQualityOptions_def Let_def split: sum.splits option.splits)
  have 4: "currentVideoData (handleAnalyze_resume r s) =
       (case awaited_json r of
          Inr d \<Rightarrow> if success d = Some True then Some d else currentVideoData s
        | Inl m \<Rightarrow> currentVideoData s)"
    by (simp add: handleAnalyze_resume_def showError_def hideAllSections_def setLoading_def
        displayVideoInfo_def populateQualityOptions_def Let_def split: sum.splits option.splits)
  show ?thesis using 1 2 3 4 by simp
qed

text \<open>
  Claim C3 as stated fails: with the data of a first video and job \<open>j1\<close> stored, the
  user enters another URL and analyzes it. When the request has been issued both are
  still stored, and they still are after the server has answered without success.
\<close>

theorem C3_counterexample:
  "currentVideoData polling_state = Some example_video
   \<and> currentJobId polling_state = Some (lit ''j1'')
   \<and> trim (urlInput_value (elements (step (TypeUrl other_url) polling_state))) = other_url
   \<and> pending (run [TypeUrl other_url, ClickAnalyze] polling_state) = [AnalyzeK]
   \<and> phase (run [TypeUrl other_url, ClickAnalyze] polling_state) = Analyzing
   \<and> currentVideoData (run [TypeUrl other_url, ClickAnalyze] polling_state) = Some example_video
   \<and> currentJobId (run [TypeUrl other_url, ClickAnalyze] polling_state) = Some (lit ''j1'')
   \<and> currentVideoData (run [TypeUrl other_url, ClickAnalyze, Deliver 0 (replied no_data)]
        polling_state) = Some example_video"
  by (simp add: example_defs app_defs)




section \<open>Validation of the URL\<close>

lemma dropWhile_all: "list_all P xs \<Longrightarrow> dropWhile P xs = []"
  by (induction xs) auto

lemma trim_blank: "list_all isWhiteSpace u \<Longrightarrow> trim u = []"
  by (simp add: trim_def dropWhile_all)

text \<open>
  Claim C5. When the URL field is empty or holds only white space, \<open>handleAnalyze\<close>
  issues no request and suspends nothing: it is \<open>showError\<close> with the empty-URL
  message, so the page shows the error section (Failed) with that message.
\<close>

theorem C5_blank_url_fails_without_request:
  assumes "list_all isWhiteSpace (urlInput_value (elements s))"
  shows "handleAnalyze s = showError msg_empty_url s
       \<and> requests (handleAnalyze s) = requests s
       \<and> pending (handleAnalyze s) = pending s
       \<and> phase (handleAnalyze s) = Failed
       \<and> errorMessage_text (elements (handleAnalyze s)) = msg_empty_url"
proof -
  have "trim (urlInput_value (elements s)) = []"
    using assms by (rule trim_blank)
  then have eq: "handleAnalyze s = showError msg_empty_url s"
    by (simp add: handleAnalyze_def)
  show ?thesis
    unfolding eq by (simp add: phase_showError) (simp add: showError_def hideAllSections_def Let_def)
qed

theorem C5_witness:
  "list_all isWhiteSpace blank_url
   \<and> requests (handleAnalyze (init (blank_page\<lparr>urlInput_value := blank_url\<rparr>))) = []
   \<and> phase (handleAnalyze (init (blank_page\<lparr>urlInput_value := blank_url\<rparr>))) = Failed
   \<and> errorMessage_text (elements (handleAnalyze (init (blank_page\<lparr>urlInput_value := blank_url\<rparr>))))
       = msg_empty_url"
proof -
  have h: "list_all isWhiteSpace (urlInput_value (elements (init (blank_page\<lparr>urlInput_value := blank_url\<rparr>))))"
    by (simp add: init_def blank_url_def lit_def isWhiteSpace_def)
  have r: "requests (init (blank_page\<lparr>urlInput_value := blank_url\<rparr>)) = []"
    by (simp add: init_def)
  have h0: "list_all isWhiteSpace blank_url"
    by (simp add: blank_url_def lit_def isWhiteSpace_def)
  show ?thesis
    using h0 C5_blank_url_fails_without_request [OF h] r
    by metis
qed

section \<open>Starting a download\<close>

text \<open>
  Claim C10. \<open>handleDownload\<close> checks nothing: with no stored video data and an empty
  URL field it issues exactly one request, a POST to the download endpoint whose body
  carries the empty string as \<open>url\<close> and the selected quality, and suspends on it.
\<close>

theorem C10_download_without_validation:
  assumes "currentVideoData s = None" and "urlInput_value (elements s) = []"
  shows "requests (handleDownload s) =
           requests s @ [Fetch ''POST'' (API_BASE @ lit ''/download'')
              [(''Content-Type'', lit ''application/json''), (''X-API-Key'', API_KEY)]
              (Some [(''url'', Some []), (''quality'', Some (qualitySelect_value (elements s))),
                     (''start_time'', None), (''end_time'', None)])]
       \<and> pending (handleDownload s) = pending s @ [DownloadK]"
  using assms by (simp add: handleDownload_def trim_def fetch_def hideAllSections_def Let_def)

theorem C10_witness:
  "currentVideoData (init blank_page) = None
   \<and> urlInput_value (elements (init blank_page)) = []
   \<and> requests (handleDownload (init blank_page)) =
        [Fetch ''POST'' (lit ''/api/download'')
           [(''Content-Type'', lit ''application/json''), (''X-API-Key'', API_KEY)]
           (Some [(''url'', Some []), (''quality'', Some (lit ''best'')),
                  (''start_time'', None), (''end_time'', None)])]"
proof -
  have a: "currentVideoData (init blank_page) = None" by (simp add: init_def)
  have b: "urlInput_value (elements (init blank_page)) = []" by (simp add: init_def blank_page_def)
  show ?thesis
    using a b C10_download_without_validation [OF a b]
    by (simp add: init_def blank_page_def API_BASE_def lit_def)
qed

end
